theory Spec2Isabelle
  imports Main
begin

section \<open>The resource manager of the speech SDK core\<close>

text \<open>
  The development embeds \<^verbatim>\<open>source/core/factory/resource_manager.cpp\<close>: the
  constructor of \<^verbatim>\<open>CSpxResourceManager\<close>, which fills the member
  \<^verbatim>\<open>m_moduleFactories\<close>, and the method \<^verbatim>\<open>CreateObject\<close>, which
  walks that member.
\<close>

subsection \<open>Data\<close>

text \<open>
  The class has the member \<^verbatim>\<open>m_moduleFactories\<close>, a sequence of module factory
  handles of type \<open>'f\<close>. Whatever else an object of the class may hold is the
  \<open>more\<close> part of the record scheme.
\<close>

record 'f CSpxResourceManager =
  m_moduleFactories :: "'f list"

text \<open>
  The three branches of the conditional compilation in the constructor:
  \<^verbatim>\<open>#ifdef __linux__\<close>, \<^verbatim>\<open>#elif __MACH__\<close> and \<^verbatim>\<open>#else\<close>.
\<close>

datatype platform = Linux | Mach | Other_platform

text \<open>
  A module factory is an object outside this file. Its method
  \<^verbatim>\<open>CreateObject(className, interfaceName)\<close> returns a pointer and may have any
  effect on the rest of the program. It is a parameter of the model: a function from the
  handle, the two names and the state \<open>'w\<close> of the rest of the program to the
  pointer (\<open>None\<close> is \<^verbatim>\<open>nullptr\<close>) and the new state.
\<close>

type_synonym ('f, 'o, 'w) factory_CreateObject =
  "'f \<Rightarrow> string \<Rightarrow> string \<Rightarrow> 'w \<Rightarrow> 'o option \<times> 'w"

subsection \<open>The constructor\<close>

text \<open>\<^verbatim>\<open>m_moduleFactories.push_back(x)\<close> appends \<open>x\<close> to the member.\<close>

definition push_back ::
  "'f \<Rightarrow> ('f, 'z) CSpxResourceManager_scheme \<Rightarrow> ('f, 'z) CSpxResourceManager_scheme" where
  "push_back x this = this\<lparr>m_moduleFactories := m_moduleFactories this @ [x]\<rparr>"

text \<open>
  The constructor starts from the empty member and pushes the handles that
  \<^verbatim>\<open>CSpxModuleFactory::Get\<close> returns for a fixed sequence of names. \<open>Get\<close> is
  declared in \<^verbatim>\<open>module_factory.h\<close> and is a parameter here.
\<close>

fun CSpxResourceManager_ctor :: "(string \<Rightarrow> 'f) \<Rightarrow> platform \<Rightarrow> 'f CSpxResourceManager" where
  "CSpxResourceManager_ctor Get Linux =
     (let this = \<lparr>m_moduleFactories = []\<rparr>;
          this = push_back (Get ''libcarbon-mock.so'') this;
          this = push_back (Get ''libMicrosoft.CognitiveServices.Speech.extension.pma.so'') this;
          this = push_back (Get ''libMicrosoft.CognitiveServices.Speech.extension.kws.so'') this;
          this = push_back (Get ''carbon'') this
      in this)"
| "CSpxResourceManager_ctor Get Mach =
     (let this = \<lparr>m_moduleFactories = []\<rparr>;
          this = push_back (Get ''libcarbon-mock.dylib'') this;
          this = push_back (Get ''libMicrosoft.CognitiveServices.Speech.extension.pma.dylib'') this;
          this = push_back (Get ''libMicrosoft.CognitiveServices.Speech.extension.kws.dylib'') this;
          this = push_back (Get ''carbon'') this
      in this)"
| "CSpxResourceManager_ctor Get Other_platform =
     (let this = \<lparr>m_moduleFactories = []\<rparr>;
          this = push_back (Get ''carbon-mock.dll'') this;
          this = push_back (Get ''Microsoft.CognitiveServices.Speech.extension.pma.dll'') this;
          this = push_back (Get ''Microsoft.CognitiveServices.Speech.extension.kws.dll'') this;
          this = push_back (Get ''carbon'') this;
          this = push_back (Get ''carbon-unidec.dll'') this
      in this)"

subsection \<open>CreateObject\<close>

text \<open>
  The range-based \<^verbatim>\<open>for\<close> over the member: each factory is asked in turn, in
  the state the earlier ones left; the first pointer that is not \<^verbatim>\<open>nullptr\<close>
  is returned at once, and \<^verbatim>\<open>nullptr\<close> after the last factory.
\<close>

fun CreateObject_loop ::
  "('f, 'o, 'w) factory_CreateObject \<Rightarrow> 'f list \<Rightarrow> string \<Rightarrow> string \<Rightarrow> 'w \<Rightarrow> 'o option \<times> 'w" where
  "CreateObject_loop fco [] className interfaceName w = (None, w)"
| "CreateObject_loop fco (factory # rest) className interfaceName w =
     (case fco factory className interfaceName w of
        (Some obj, w') \<Rightarrow> (Some obj, w')
      | (None, w') \<Rightarrow> CreateObject_loop fco rest className interfaceName w')"

text \<open>
  The method, with the object it is called on and the state of the rest of the program
  passed in and returned: the result is the pointer, the object after the call and the
  state after the call.
\<close>

definition CreateObject ::
  "('f, 'o, 'w) factory_CreateObject \<Rightarrow> ('f, 'z) CSpxResourceManager_scheme \<Rightarrow> string \<Rightarrow> string \<Rightarrow> 'w
     \<Rightarrow> 'o option \<times> ('f, 'z) CSpxResourceManager_scheme \<times> 'w" where
  "CreateObject fco this className interfaceName w =
     (case CreateObject_loop fco (m_moduleFactories this) className interfaceName w of
        (obj, w') \<Rightarrow> (obj, this, w'))"

subsection \<open>Instrumented factories\<close>

text \<open>
  To observe which factories a call consults, and with which arguments, every factory is
  wrapped so that it appends a record of each invocation (its handle, the two names it
  received and the pointer it returned) to a log kept beside the state of the rest of the
  program. The wrapper leaves the factory's own behaviour as it is.
\<close>

record ('f, 'o) invocation =
  inv_factory :: 'f
  inv_className :: string
  inv_interfaceName :: string
  inv_result :: "'o option"

definition instrumented ::
  "('f, 'o, 'w) factory_CreateObject \<Rightarrow> ('f, 'o, ('f, 'o) invocation list \<times> 'w) factory_CreateObject" where
  "instrumented fco factory className interfaceName lw =
     (case lw of (log, w) \<Rightarrow>
        (case fco factory className interfaceName w of (r, w') \<Rightarrow>
           (r, (log @ [\<lparr>inv_factory = factory, inv_className = className,
                        inv_interfaceName = interfaceName, inv_result = r\<rparr>], w'))))"

subsection \<open>Stub factories\<close>

text \<open>
  Stub factories for concrete runs: a table says which pointer a factory returns for a
  class and interface name, any other request gives \<^verbatim>\<open>nullptr\<close>; the state of the
  rest of the program is the number of factory invocations made so far.
\<close>

definition stub_CreateObject ::
  "(('f \<times> string \<times> string) \<times> 'o) list \<Rightarrow> ('f, 'o, nat) factory_CreateObject" where
  "stub_CreateObject table factory className interfaceName n =
     (map_of table (factory, className, interfaceName), Suc n)"

subsection \<open>Logical module names\<close>

text \<open>
  The specification speaks of the logical identity of a module, of which the literal
  name is a platform-specific spelling. Here the logical name is the literal name without
  the platform's decoration: the library prefix \<^verbatim>\<open>lib\<close> and the suffix
  \<^verbatim>\<open>.so\<close>, \<^verbatim>\<open>.dylib\<close> or \<^verbatim>\<open>.dll\<close>.
\<close>

definition strip_prefix :: "string \<Rightarrow> string \<Rightarrow> string" where
  "strip_prefix p s = (if take (length p) s = p then drop (length p) s else s)"

definition strip_suffix :: "string \<Rightarrow> string \<Rightarrow> string" where
  "strip_suffix p s = rev (strip_prefix (rev p) (rev s))"

definition spec_logical_name :: "string \<Rightarrow> string" where
  "spec_logical_name name =
     strip_prefix ''lib'' (strip_suffix ''.so'' (strip_suffix ''.dylib'' (strip_suffix ''.dll'' name)))"

text \<open>
  The order the specification gives for every platform: the mock module, the pma
  extension, the kws extension, the core module.
\<close>

definition spec_module_order :: "string list" where
  "spec_module_order =
     [''carbon-mock'',
      ''Microsoft.CognitiveServices.Speech.extension.pma'',
      ''Microsoft.CognitiveServices.Speech.extension.kws'',
      ''carbon'']"

subsection \<open>What a log of one call looks like\<close>

text \<open>
  \<open>trace_ok fs c i r ext\<close> describes the invocations \<open>ext\<close> that one call with the
  names \<open>c\<close> and \<open>i\<close> on the list \<open>fs\<close> with result \<open>r\<close> may add to the log:
  they went to the first factories of the list, in the order of the list, each with the
  names \<open>c\<close> and \<open>i\<close>; all but the last returned \<^verbatim>\<open>nullptr\<close>; and either the
  last one returned the result of the call, or the whole list was consulted in vain.
\<close>

definition trace_ok ::
  "'f list \<Rightarrow> string \<Rightarrow> string \<Rightarrow> 'o option \<Rightarrow> ('f, 'o) invocation list \<Rightarrow> bool" where
  "trace_ok fs c i r ext \<longleftrightarrow>
     length ext \<le> length fs \<and> map inv_factory ext = take (length ext) fs
     \<and> (\<forall>e\<in>set ext. inv_className e = c \<and> inv_interfaceName e = i)
     \<and> (\<forall>e\<in>set (butlast ext). inv_result e = None)
     \<and> (case r of Some obj \<Rightarrow> ext \<noteq> [] \<and> inv_result (last ext) = Some obj
         | None \<Rightarrow> length ext = length fs \<and> (\<forall>e\<in>set ext. inv_result e = None))"

section \<open>The list the constructor builds\<close>

lemma ctor_Linux:
  "m_moduleFactories (CSpxResourceManager_ctor Get Linux) =
     [Get ''libcarbon-mock.so'',
      Get ''libMicrosoft.CognitiveServices.Speech.extension.pma.so'',
      Get ''libMicrosoft.CognitiveServices.Speech.extension.kws.so'',
      Get ''carbon'']"
  by (simp add: push_back_def)

lemma ctor_Mach:
  "m_moduleFactories (CSpxResourceManager_ctor Get Mach) =
     [Get ''libcarbon-mock.dylib'',
      Get ''libMicrosoft.CognitiveServices.Speech.extension.pma.dylib'',
      Get ''libMicrosoft.CognitiveServices.Speech.extension.kws.dylib'',
      Get ''carbon'']"
  by (simp add: push_back_def)

lemma ctor_Other:
  "m_moduleFactories (CSpxResourceManager_ctor Get Other_platform) =
     [Get ''carbon-mock.dll'',
      Get ''Microsoft.CognitiveServices.Speech.extension.pma.dll'',
      Get ''Microsoft.CognitiveServices.Speech.extension.kws.dll'',
      Get ''carbon'',
      Get ''carbon-unidec.dll'']"
  by (simp add: push_back_def)

text \<open>
  Claim C10. The constructor builds, on the Linux branch, exactly the four handles of
  \<^verbatim>\<open>libcarbon-mock.so\<close>, the pma extension, the kws extension and
  \<^verbatim>\<open>carbon\<close>, in this order; on the macOS branch the same four with
  \<^verbatim>\<open>.dylib\<close> names; on the remaining branch exactly five: \<^verbatim>\<open>carbon-mock.dll\<close>,
  the pma and kws extensions, \<^verbatim>\<open>carbon\<close>, and then \<^verbatim>\<open>carbon-unidec.dll\<close>.
\<close>

theorem ctor_list_contents:
  "CSpxResourceManager_ctor Get Linux =
     \<lparr>m_moduleFactories =
        [Get ''libcarbon-mock.so'',
         Get ''libMicrosoft.CognitiveServices.Speech.extension.pma.so'',
         Get ''libMicrosoft.CognitiveServices.Speech.extension.kws.so'',
         Get ''carbon'']\<rparr>
   \<and> CSpxResourceManager_ctor Get Mach =
     \<lparr>m_moduleFactories =
        [Get ''libcarbon-mock.dylib'',
         Get ''libMicrosoft.CognitiveServices.Speech.extension.pma.dylib'',
         Get ''libMicrosoft.CognitiveServices.Speech.extension.kws.dylib'',
         Get ''carbon'']\<rparr>
   \<and> CSpxResourceManager_ctor Get Other_platform =
     \<lparr>m_moduleFactories =
        [Get ''carbon-mock.dll'',
         Get ''Microsoft.CognitiveServices.Speech.extension.pma.dll'',
         Get ''Microsoft.CognitiveServices.Speech.extension.kws.dll'',
         Get ''carbon'',
         Get ''carbon-unidec.dll'']\<rparr>"
  by (simp add: push_back_def)

section \<open>The search loop\<close>

lemma loop_skip_none:
  assumes "length ws = Suc k" and "k \<le> length fs" and "ws ! 0 = w"
    and "\<forall>j<k. fco (fs ! j) c i (ws ! j) = (None, ws ! Suc j)"
  shows "CreateObject_loop fco fs c i w = CreateObject_loop fco (drop k fs) c i (ws ! k)"
  using assms
proof (induction k arbitrary: fs ws w)
  case 0
  then show ?case by simp
next
  case (Suc k)
  from Suc.prems(2) obtain f fs' where fs: "fs = f # fs'"
    by (cases fs) auto
  from Suc.prems(1) obtain w0 ws' where ws: "ws = w0 # ws'"
    by (cases ws) auto
  from Suc.prems(3) ws have w0: "w0 = w" by simp
  from Suc.prems(4) have first: "fco f c i w = (None, ws' ! 0)"
    using fs ws w0 by auto
  have rest: "\<forall>j<k. fco (fs' ! j) c i (ws' ! j) = (None, ws' ! Suc j)"
  proof (intro allI impI)
    fix j assume "j < k"
    then have "Suc j < Suc k" by simp
    with Suc.prems(4) have "fco (fs ! Suc j) c i (ws ! Suc j) = (None, ws ! Suc (Suc j))"
      by blast
    then show "fco (fs' ! j) c i (ws' ! j) = (None, ws' ! Suc j)"
      by (simp add: fs ws)
  qed
  have "CreateObject_loop fco fs' c i (ws' ! 0) = CreateObject_loop fco (drop k fs') c i (ws' ! k)"
    using Suc.prems(1,2) rest by (intro Suc.IH) (simp_all add: fs ws)
  then show ?case
    by (simp add: fs ws first)
qed

lemma loop_state_independent:
  assumes "\<forall>f\<in>set fs. \<forall>w1 w2. fst (fco f c i w1) = fst (fco f c i w2)"
  shows "fst (CreateObject_loop fco fs c i w1) = fst (CreateObject_loop fco fs c i w2)"
  using assms
proof (induction fs arbitrary: w1 w2)
  case Nil
  then show ?case by simp
next
  case (Cons f fs)
  obtain r1 v1 where a: "fco f c i w1 = (r1, v1)" by (cases "fco f c i w1")
  obtain r2 v2 where b: "fco f c i w2 = (r2, v2)" by (cases "fco f c i w2")
  from Cons.prems have "fst (fco f c i w1) = fst (fco f c i w2)" by simp
  with a b have eq: "r1 = r2" by simp
  from Cons.prems have tl: "\<forall>f\<in>set fs. \<forall>w1 w2. fst (fco f c i w1) = fst (fco f c i w2)"
    by simp
  show ?case
  proof (cases r1)
    case None
    with a b eq Cons.IH [OF tl, of v1 v2] show ?thesis by simp
  next
    case (Some obj)
    with a b eq show ?thesis by auto
  qed
qed

lemma instrumented_step:
  "fco f c i w = (r, w') \<Longrightarrow>
   instrumented fco f c i (log, w) =
     (r, (log @ [\<lparr>inv_factory = f, inv_className = c, inv_interfaceName = i, inv_result = r\<rparr>], w'))"
  by (simp add: instrumented_def)

lemma loop_instrumented:
  assumes "CreateObject_loop (instrumented fco) fs c i (log, w) = (r, (log', w'))"
  shows "CreateObject_loop fco fs c i w = (r, w') \<and> (\<exists>ext. log' = log @ ext \<and> trace_ok fs c i r ext)"
  using assms
proof (induction fs arbitrary: log w)
  case Nil
  then show ?case by (auto simp: trace_ok_def)
next
  case (Cons f fs)
  obtain r0 w0 where step: "fco f c i w = (r0, w0)" by (cases "fco f c i w")
  let ?e = "\<lparr>inv_factory = f, inv_className = c, inv_interfaceName = i, inv_result = r0\<rparr>"
  show ?case
  proof (cases r0)
    case (Some obj)
    with Cons.prems step have "r = Some obj \<and> log' = log @ [?e] \<and> w' = w0"
      using step instrumented_step [of fco f c i w _ _ log] by auto
    with step Some show ?thesis
      by (auto simp: trace_ok_def)
  next
    case None
    with Cons.prems step
    have "CreateObject_loop (instrumented fco) fs c i (log @ [?e], w0) = (r, (log', w'))"
      using step instrumented_step [of fco f c i w _ _ log] by simp
    from Cons.IH [OF this] obtain ext where
      run: "CreateObject_loop fco fs c i w0 = (r, w')" and
      log: "log' = (log @ [?e]) @ ext" and ok: "trace_ok fs c i r ext"
      by blast
    have "trace_ok (f # fs) c i r (?e # ext)"
      using ok None by (cases r) (auto simp: trace_ok_def)
    with run log step None show ?thesis
      by auto
  qed
qed


section \<open>Properties of CreateObject\<close>

text \<open>
  In the theorems below a factory may change the state of the rest of the program, and
  its answer may depend on that state. A list \<open>ws\<close> of states records the run:
  \<open>ws ! j\<close> is the state in which the factory at position \<open>j\<close> is invoked, and
  \<open>ws ! 0\<close> is the state in which \<^verbatim>\<open>CreateObject\<close> is called.
\<close>

text \<open>
  Claim C1 (priority correctness). For every class and interface name and every factory
  list: if the factory at position \<open>k\<close> returns a pointer \<open>obj\<close> that is not
  \<^verbatim>\<open>nullptr\<close> and every factory at a position before \<open>k\<close> returns
  \<^verbatim>\<open>nullptr\<close>, then \<^verbatim>\<open>CreateObject\<close> returns exactly \<open>obj\<close> (and leaves the
  state that this factory left).
\<close>

theorem priority_correctness:
  assumes "k < length (m_moduleFactories this)"
    and "length ws = Suc k" and "ws ! 0 = w"
    and "\<forall>j<k. fco (m_moduleFactories this ! j) className interfaceName (ws ! j) = (None, ws ! Suc j)"
    and "fco (m_moduleFactories this ! k) className interfaceName (ws ! k) = (Some obj, w')"
  shows "CreateObject fco this className interfaceName w = (Some obj, this, w')"
proof -
  let ?fs = "m_moduleFactories this"
  have "CreateObject_loop fco ?fs className interfaceName w =
        CreateObject_loop fco (drop k ?fs) className interfaceName (ws ! k)"
    using assms(1-4) by (intro loop_skip_none) simp_all
  also have "drop k ?fs = ?fs ! k # drop (Suc k) ?fs"
    using assms(1) by (simp add: Cons_nth_drop_Suc)
  also have "CreateObject_loop fco (?fs ! k # drop (Suc k) ?fs) className interfaceName (ws ! k) = (Some obj, w')"
    using assms(5) by simp
  finally show ?thesis
    by (simp add: CreateObject_def)
qed

text \<open>
  The theorem at the list of a mock, a real and a core factory, where only the real
  factory can build class \<open>B\<close>: the call returns its token \<open>S\<close>.
\<close>

theorem priority_correctness_witness:
  "CreateObject
     (stub_CreateObject [((''mock'', ''A'', ''IA''), ''M''), ((''real'', ''A'', ''IA''), ''R''),
                         ((''real'', ''B'', ''IB''), ''S'')])
     \<lparr>m_moduleFactories = [''mock'', ''real'', ''core'']\<rparr> ''B'' ''IB'' 0
   = (Some ''S'', \<lparr>m_moduleFactories = [''mock'', ''real'', ''core'']\<rparr>, 2)"
  by (rule priority_correctness [where k = "Suc 0" and ws = "[0, Suc 0]"])
     (simp_all add: stub_CreateObject_def)

text \<open>
  Claim C4 (exhaustion correctness). For every class and interface name: if every
  factory of the list returns \<^verbatim>\<open>nullptr\<close> for them, then \<^verbatim>\<open>CreateObject\<close>
  returns \<^verbatim>\<open>nullptr\<close>, which is an ordinary result of the call and no error; the
  empty list is the case \<open>ws = [w]\<close>.
\<close>

theorem exhaustion_correctness:
  assumes "length ws = Suc (length (m_moduleFactories this))" and "ws ! 0 = w"
    and "\<forall>j<length (m_moduleFactories this).
           fco (m_moduleFactories this ! j) className interfaceName (ws ! j) = (None, ws ! Suc j)"
  shows "CreateObject fco this className interfaceName w =
           (None, this, ws ! length (m_moduleFactories this))"
proof -
  let ?fs = "m_moduleFactories this"
  have "CreateObject_loop fco ?fs className interfaceName w =
        CreateObject_loop fco (drop (length ?fs) ?fs) className interfaceName (ws ! length ?fs)"
    using assms by (intro loop_skip_none) simp_all
  then show ?thesis
    by (simp add: CreateObject_def)
qed

text \<open>
  The theorem at a list of two factories that cannot build class \<open>C\<close>, and at the
  empty list.
\<close>

theorem exhaustion_correctness_witness:
  "CreateObject
     (stub_CreateObject [((''mock'', ''A'', ''IA''), ''M''), ((''real'', ''A'', ''IA''), ''R''),
                         ((''real'', ''B'', ''IB''), ''S'')])
     \<lparr>m_moduleFactories = [''mock'', ''real'']\<rparr> ''C'' ''IC'' 0
   = (None :: string option, \<lparr>m_moduleFactories = [''mock'', ''real'']\<rparr>, 2)
   \<and> CreateObject (stub_CreateObject [((''mock'', ''A'', ''IA''), ''M'')])
     \<lparr>m_moduleFactories = []\<rparr> ''A'' ''IA'' 0
   = (None :: string option, \<lparr>m_moduleFactories = []\<rparr>, 0)"
proof
  show "CreateObject
     (stub_CreateObject [((''mock'', ''A'', ''IA''), ''M''), ((''real'', ''A'', ''IA''), ''R''),
                         ((''real'', ''B'', ''IB''), ''S'')])
     \<lparr>m_moduleFactories = [''mock'', ''real'']\<rparr> ''C'' ''IC'' 0
   = (None :: string option, \<lparr>m_moduleFactories = [''mock'', ''real'']\<rparr>, 2)"
    using exhaustion_correctness [where ws = "[0, Suc 0, Suc (Suc 0)]" and w = 0
        and this = "\<lparr>m_moduleFactories = [''mock'', ''real'']\<rparr>"
        and fco = "stub_CreateObject [((''mock'', ''A'', ''IA''), ''M''), ((''real'', ''A'', ''IA''), ''R''),
                         ((''real'', ''B'', ''IB''), ''S'')]"
        and className = "''C''" and interfaceName = "''IC''"]
    by (simp add: stub_CreateObject_def All_less_Suc)
  show "CreateObject (stub_CreateObject [((''mock'', ''A'', ''IA''), ''M'')])
     \<lparr>m_moduleFactories = []\<rparr> ''A'' ''IA'' 0
   = (None :: string option, \<lparr>m_moduleFactories = []\<rparr>, 0)"
    using exhaustion_correctness [where ws = "[0]" and w = 0
        and this = "\<lparr>m_moduleFactories = []\<rparr>"
        and fco = "stub_CreateObject [((''mock'', ''A'', ''IA''), ''M'')]"
        and className = "''A''" and interfaceName = "''IA''"]
    by simp
qed

lemma CreateObject_result:
  "fst (CreateObject fco this c i w) = fst (CreateObject_loop fco (m_moduleFactories this) c i w)"
  by (simp add: CreateObject_def split: prod.splits)

text \<open>
  Claim C7 (determinism). For a fixed factory list whose factories answer a class and
  interface name the same way in every state, any two calls of \<^verbatim>\<open>CreateObject\<close>
  with these names return the same pointer, whatever the states they are made in.
\<close>

theorem determinism:
  assumes "\<forall>f\<in>set (m_moduleFactories this). \<forall>w1 w2.
             fst (fco f className interfaceName w1) = fst (fco f className interfaceName w2)"
  shows "fst (CreateObject fco this className interfaceName w1) =
         fst (CreateObject fco this className interfaceName w2)"
proof -
  have "fst (CreateObject_loop fco (m_moduleFactories this) className interfaceName w1) =
        fst (CreateObject_loop fco (m_moduleFactories this) className interfaceName w2)"
    using assms by (rule loop_state_independent)
  then show ?thesis
    by (simp add: CreateObject_result)
qed

text \<open>
  The theorem at two calls for class \<open>B\<close>, one made after no and one after seven
  factory invocations: both return the token \<open>S\<close>.
\<close>

theorem determinism_witness:
  "fst (CreateObject
     (stub_CreateObject [((''mock'', ''A'', ''IA''), ''M''), ((''real'', ''A'', ''IA''), ''R''),
                         ((''real'', ''B'', ''IB''), ''S'')])
     \<lparr>m_moduleFactories = [''mock'', ''real'']\<rparr> ''B'' ''IB'' 0)
   = fst (CreateObject
     (stub_CreateObject [((''mock'', ''A'', ''IA''), ''M''), ((''real'', ''A'', ''IA''), ''R''),
                         ((''real'', ''B'', ''IB''), ''S'')])
     \<lparr>m_moduleFactories = [''mock'', ''real'']\<rparr> ''B'' ''IB'' 7)
   \<and> fst (CreateObject
     (stub_CreateObject [((''mock'', ''A'', ''IA''), ''M''), ((''real'', ''A'', ''IA''), ''R''),
                         ((''real'', ''B'', ''IB''), ''S'')])
     \<lparr>m_moduleFactories = [''mock'', ''real'']\<rparr> ''B'' ''IB'' 7) = Some ''S''"
proof
  show "fst (CreateObject
     (stub_CreateObject [((''mock'', ''A'', ''IA''), ''M''), ((''real'', ''A'', ''IA''), ''R''),
                         ((''real'', ''B'', ''IB''), ''S'')])
     \<lparr>m_moduleFactories = [''mock'', ''real'']\<rparr> ''B'' ''IB'' 0)
   = fst (CreateObject
     (stub_CreateObject [((''mock'', ''A'', ''IA''), ''M''), ((''real'', ''A'', ''IA''), ''R''),
                         ((''real'', ''B'', ''IB''), ''S'')])
     \<lparr>m_moduleFactories = [''mock'', ''real'']\<rparr> ''B'' ''IB'' 7)"
    by (rule determinism) (simp add: stub_CreateObject_def)
  show "fst (CreateObject
     (stub_CreateObject [((''mock'', ''A'', ''IA''), ''M''), ((''real'', ''A'', ''IA''), ''R''),
                         ((''real'', ''B'', ''IB''), ''S'')])
     \<lparr>m_moduleFactories = [''mock'', ''real'']\<rparr> ''B'' ''IB'' 7) = Some ''S''"
    by (simp add: CreateObject_def stub_CreateObject_def)
qed

lemma CreateObject_head:
  assumes "m_moduleFactories this = f # rest" and "fco f c i w = (Some m, w')"
  shows "CreateObject fco this c i w = (Some m, this, w')"
  using assms by (simp add: CreateObject_def)

text \<open>
  Claim C2 (mock override). On every branch the constructor pushes the mock module
  first: it is the head of the list, and its name is not among the names pushed after it,
  which are the production modules. So whenever the mock factory returns a pointer that is
  not \<^verbatim>\<open>nullptr\<close> for a class and interface name, \<^verbatim>\<open>CreateObject\<close> returns
  that pointer, whatever a production factory later in the list would return.
\<close>

theorem mock_override:
  "(hd (m_moduleFactories (CSpxResourceManager_ctor Get Linux)) = Get ''libcarbon-mock.so''
    \<and> ''libcarbon-mock.so'' \<notin> set (tl (m_moduleFactories (CSpxResourceManager_ctor id Linux)))
    \<and> (fco (Get ''libcarbon-mock.so'') className interfaceName w = (Some m, w') \<longrightarrow>
      CreateObject fco (CSpxResourceManager_ctor Get Linux) className interfaceName w =
        (Some m, CSpxResourceManager_ctor Get Linux, w')))
   \<and> (hd (m_moduleFactories (CSpxResourceManager_ctor Get Mach)) = Get ''libcarbon-mock.dylib''
    \<and> ''libcarbon-mock.dylib'' \<notin> set (tl (m_moduleFactories (CSpxResourceManager_ctor id Mach)))
    \<and> (fco (Get ''libcarbon-mock.dylib'') className interfaceName w = (Some m, w') \<longrightarrow>
      CreateObject fco (CSpxResourceManager_ctor Get Mach) className interfaceName w =
        (Some m, CSpxResourceManager_ctor Get Mach, w')))
   \<and> (hd (m_moduleFactories (CSpxResourceManager_ctor Get Other_platform)) = Get ''carbon-mock.dll''
    \<and> ''carbon-mock.dll'' \<notin> set (tl (m_moduleFactories (CSpxResourceManager_ctor id Other_platform)))
    \<and> (fco (Get ''carbon-mock.dll'') className interfaceName w = (Some m, w') \<longrightarrow>
      CreateObject fco (CSpxResourceManager_ctor Get Other_platform) className interfaceName w =
        (Some m, CSpxResourceManager_ctor Get Other_platform, w')))"
proof -
  have names:
    "''libcarbon-mock.so'' \<notin> set (tl (m_moduleFactories (CSpxResourceManager_ctor id Linux)))"
    "''libcarbon-mock.dylib'' \<notin> set (tl (m_moduleFactories (CSpxResourceManager_ctor id Mach)))"
    "''carbon-mock.dll'' \<notin> set (tl (m_moduleFactories (CSpxResourceManager_ctor id Other_platform)))"
    by (simp_all add: push_back_def)
  have heads:
    "hd (m_moduleFactories (CSpxResourceManager_ctor Get Linux)) = Get ''libcarbon-mock.so''"
    "hd (m_moduleFactories (CSpxResourceManager_ctor Get Mach)) = Get ''libcarbon-mock.dylib''"
    "hd (m_moduleFactories (CSpxResourceManager_ctor Get Other_platform)) = Get ''carbon-mock.dll''"
    by (simp_all add: push_back_def)
  show ?thesis
    using names heads
      CreateObject_head [OF ctor_Linux, of fco Get className interfaceName w m w']
      CreateObject_head [OF ctor_Mach, of fco Get className interfaceName w m w']
      CreateObject_head [OF ctor_Other, of fco Get className interfaceName w m w']
    by blast
qed

text \<open>
  The theorem on the three branches, with module handles that are the module names: the
  mock module and the core module \<^verbatim>\<open>carbon\<close> both build class \<open>Foo\<close>, with the
  tokens \<open>M\<close> and \<open>R\<close>; the call returns \<open>M\<close> after one factory invocation.
\<close>

theorem mock_override_witness:
  "CreateObject (stub_CreateObject [((''libcarbon-mock.so'', ''Foo'', ''IFoo''), ''M''),
                                    ((''libcarbon-mock.dylib'', ''Foo'', ''IFoo''), ''M''),
                                    ((''carbon-mock.dll'', ''Foo'', ''IFoo''), ''M''),
                                    ((''carbon'', ''Foo'', ''IFoo''), ''R'')])
     (CSpxResourceManager_ctor id Linux) ''Foo'' ''IFoo'' 0
     = (Some ''M'', CSpxResourceManager_ctor id Linux, 1)
   \<and> CreateObject (stub_CreateObject [((''libcarbon-mock.so'', ''Foo'', ''IFoo''), ''M''),
                                    ((''libcarbon-mock.dylib'', ''Foo'', ''IFoo''), ''M''),
                                    ((''carbon-mock.dll'', ''Foo'', ''IFoo''), ''M''),
                                    ((''carbon'', ''Foo'', ''IFoo''), ''R'')])
     (CSpxResourceManager_ctor id Mach) ''Foo'' ''IFoo'' 0
     = (Some ''M'', CSpxResourceManager_ctor id Mach, 1)
   \<and> CreateObject (stub_CreateObject [((''libcarbon-mock.so'', ''Foo'', ''IFoo''), ''M''),
                                    ((''libcarbon-mock.dylib'', ''Foo'', ''IFoo''), ''M''),
                                    ((''carbon-mock.dll'', ''Foo'', ''IFoo''), ''M''),
                                    ((''carbon'', ''Foo'', ''IFoo''), ''R'')])
     (CSpxResourceManager_ctor id Other_platform) ''Foo'' ''IFoo'' 0
     = (Some ''M'', CSpxResourceManager_ctor id Other_platform, 1)
   \<and> stub_CreateObject [((''libcarbon-mock.so'', ''Foo'', ''IFoo''), ''M''),
                                    ((''libcarbon-mock.dylib'', ''Foo'', ''IFoo''), ''M''),
                                    ((''carbon-mock.dll'', ''Foo'', ''IFoo''), ''M''),
                                    ((''carbon'', ''Foo'', ''IFoo''), ''R'')] (id ''carbon'') ''Foo'' ''IFoo'' 0
     = (Some ''R'', 1)"
  using mock_override [where Get = id and className = "''Foo''" and interfaceName = "''IFoo''"
      and w = 0 and m = "''M''" and w' = "Suc 0"
      and fco = "stub_CreateObject [((''libcarbon-mock.so'', ''Foo'', ''IFoo''), ''M''),
                                    ((''libcarbon-mock.dylib'', ''Foo'', ''IFoo''), ''M''),
                                    ((''carbon-mock.dll'', ''Foo'', ''IFoo''), ''M''),
                                    ((''carbon'', ''Foo'', ''IFoo''), ''R'')]"]
  by (simp add: stub_CreateObject_def del: CSpxResourceManager_ctor.simps)

text \<open>
  Claim C3 (short circuit). The log of one call, made with instrumented factories and
  started empty, holds invocations of the first factories of the list only, one each and
  in the order of the list; every invocation but the last returned \<^verbatim>\<open>nullptr\<close>, so
  an invocation that returned a pointer is the last one: no factory after the winning
  one is invoked. The instrumentation does not change the call's result or its effect.
\<close>

theorem short_circuit:
  assumes "CreateObject (instrumented fco) this className interfaceName ([], w) = (r, this', (log, w'))"
  shows "CreateObject fco this className interfaceName w = (r, this', w')
    \<and> length log \<le> length (m_moduleFactories this)
    \<and> map inv_factory log = take (length log) (m_moduleFactories this)
    \<and> (\<forall>e\<in>set (butlast log). inv_result e = None)
    \<and> (\<forall>j<length log. inv_result (log ! j) \<noteq> None \<longrightarrow> Suc j = length log)
    \<and> (r \<noteq> None \<longrightarrow> log \<noteq> [] \<and> inv_result (last log) = r)
    \<and> (r = None \<longrightarrow> map inv_factory log = m_moduleFactories this \<and> (\<forall>e\<in>set log. inv_result e = None))"
proof -
  from assms have run: "CreateObject_loop (instrumented fco) (m_moduleFactories this) className interfaceName ([], w) = (r, (log, w'))"
    and this': "this' = this"
    by (auto simp: CreateObject_def split: prod.splits)
  from loop_instrumented [OF run] have plain: "CreateObject_loop fco (m_moduleFactories this) className interfaceName w = (r, w')"
    and ok: "trace_ok (m_moduleFactories this) className interfaceName r log"
    by auto
  have idx: "\<forall>j<length log. inv_result (log ! j) \<noteq> None \<longrightarrow> Suc j = length log"
  proof (intro allI impI)
    fix j assume j: "j < length log" and nz: "inv_result (log ! j) \<noteq> None"
    show "Suc j = length log"
    proof (rule ccontr)
      assume "Suc j \<noteq> length log"
      with j have "j < length (butlast log)" by simp
      then have "butlast log ! j \<in> set (butlast log)" by (rule nth_mem)
      moreover have "butlast log ! j = log ! j"
        using \<open>j < length (butlast log)\<close> by (rule nth_butlast)
      ultimately have "inv_result (log ! j) = None"
        using ok by (simp add: trace_ok_def)
      with nz show False by simp
    qed
  qed
  from plain this' have "CreateObject fco this className interfaceName w = (r, this', w')"
    by (simp add: CreateObject_def)
  with ok idx show ?thesis
    by (cases r) (simp_all add: trace_ok_def)
qed

text \<open>
  The theorem at a list of three factories of which the second and the third can build
  class \<open>B\<close>: the log holds the invocations of the first and the second only. For
  class \<open>C\<close>, which none can build, all three are invoked.
\<close>

theorem short_circuit_witness:
  "CreateObject
     (instrumented (stub_CreateObject [((''mock'', ''A'', ''IA''), ''M''), ((''real'', ''A'', ''IA''), ''R''),
                         ((''real'', ''B'', ''IB''), ''S''), ((''core'', ''B'', ''IB''), ''T'')]))
     \<lparr>m_moduleFactories = [''mock'', ''real'', ''core'']\<rparr> ''B'' ''IB'' ([], 0)
   = (Some ''S'', \<lparr>m_moduleFactories = [''mock'', ''real'', ''core'']\<rparr>,
      ([\<lparr>inv_factory = ''mock'', inv_className = ''B'', inv_interfaceName = ''IB'', inv_result = None\<rparr>,
        \<lparr>inv_factory = ''real'', inv_className = ''B'', inv_interfaceName = ''IB'', inv_result = Some ''S''\<rparr>],
       2))
   \<and> CreateObject
     (stub_CreateObject [((''mock'', ''A'', ''IA''), ''M''), ((''real'', ''A'', ''IA''), ''R''),
                         ((''real'', ''B'', ''IB''), ''S''), ((''core'', ''B'', ''IB''), ''T'')])
     \<lparr>m_moduleFactories = [''mock'', ''real'', ''core'']\<rparr> ''B'' ''IB'' 0
   = (Some ''S'', \<lparr>m_moduleFactories = [''mock'', ''real'', ''core'']\<rparr>, 2)
   \<and> CreateObject
     (stub_CreateObject [((''mock'', ''A'', ''IA''), ''M''), ((''real'', ''A'', ''IA''), ''R''),
                         ((''real'', ''B'', ''IB''), ''S''), ((''core'', ''B'', ''IB''), ''T'')])
     \<lparr>m_moduleFactories = [''mock'', ''real'', ''core'']\<rparr> ''C'' ''IC'' 0
   = (None, \<lparr>m_moduleFactories = [''mock'', ''real'', ''core'']\<rparr>, 3)"
proof -
  have run: "CreateObject
     (instrumented (stub_CreateObject [((''mock'', ''A'', ''IA''), ''M''), ((''real'', ''A'', ''IA''), ''R''),
                         ((''real'', ''B'', ''IB''), ''S''), ((''core'', ''B'', ''IB''), ''T'')]))
     \<lparr>m_moduleFactories = [''mock'', ''real'', ''core'']\<rparr> ''B'' ''IB'' ([], 0)
   = (Some ''S'', \<lparr>m_moduleFactories = [''mock'', ''real'', ''core'']\<rparr>,
      ([\<lparr>inv_factory = ''mock'', inv_className = ''B'', inv_interfaceName = ''IB'', inv_result = None\<rparr>,
        \<lparr>inv_factory = ''real'', inv_className = ''B'', inv_interfaceName = ''IB'', inv_result = Some ''S''\<rparr>],
       2))"
    by (simp add: CreateObject_def instrumented_def stub_CreateObject_def)
  have none: "CreateObject
     (instrumented (stub_CreateObject [((''mock'', ''A'', ''IA''), ''M''), ((''real'', ''A'', ''IA''), ''R''),
                         ((''real'', ''B'', ''IB''), ''S''), ((''core'', ''B'', ''IB''), ''T'')]))
     \<lparr>m_moduleFactories = [''mock'', ''real'', ''core'']\<rparr> ''C'' ''IC'' ([], 0)
   = (None, \<lparr>m_moduleFactories = [''mock'', ''real'', ''core'']\<rparr>,
      ([\<lparr>inv_factory = ''mock'', inv_className = ''C'', inv_interfaceName = ''IC'', inv_result = None\<rparr>,
        \<lparr>inv_factory = ''real'', inv_className = ''C'', inv_interfaceName = ''IC'', inv_result = None\<rparr>,
        \<lparr>inv_factory = ''core'', inv_className = ''C'', inv_interfaceName = ''IC'', inv_result = None\<rparr>],
       3))"
    by (simp add: CreateObject_def instrumented_def stub_CreateObject_def)
  have some_plain: "CreateObject
     (stub_CreateObject [((''mock'', ''A'', ''IA''), ''M''), ((''real'', ''A'', ''IA''), ''R''),
                         ((''real'', ''B'', ''IB''), ''S''), ((''core'', ''B'', ''IB''), ''T'')])
     \<lparr>m_moduleFactories = [''mock'', ''real'', ''core'']\<rparr> ''B'' ''IB'' 0
   = (Some ''S'', \<lparr>m_moduleFactories = [''mock'', ''real'', ''core'']\<rparr>, 2)"
    by (rule conjunct1 [OF short_circuit [OF run]])
  have none_plain: "CreateObject
     (stub_CreateObject [((''mock'', ''A'', ''IA''), ''M''), ((''real'', ''A'', ''IA''), ''R''),
                         ((''real'', ''B'', ''IB''), ''S''), ((''core'', ''B'', ''IB''), ''T'')])
     \<lparr>m_moduleFactories = [''mock'', ''real'', ''core'']\<rparr> ''C'' ''IC'' 0
   = (None, \<lparr>m_moduleFactories = [''mock'', ''real'', ''core'']\<rparr>, 3)"
    by (rule conjunct1 [OF short_circuit [OF none]])
  show ?thesis
    by (rule conjI [OF run conjI [OF some_plain none_plain]])
qed

text \<open>
  Claim C9 (argument forwarding). Every invocation in the log of one call, whichever
  factory it went to, carries exactly the class name and the interface name the caller
  passed to \<^verbatim>\<open>CreateObject\<close>.
\<close>

theorem argument_forwarding:
  assumes "CreateObject (instrumented fco) this className interfaceName ([], w) = (r, this', (log, w'))"
  shows "\<forall>e\<in>set log. inv_className e = className \<and> inv_interfaceName e = interfaceName"
proof -
  from assms have run: "CreateObject_loop (instrumented fco) (m_moduleFactories this) className interfaceName ([], w) = (r, (log, w'))"
    by (auto simp: CreateObject_def split: prod.splits)
  from loop_instrumented [OF run] have "trace_ok (m_moduleFactories this) className interfaceName r log"
    by auto
  then show ?thesis
    by (simp add: trace_ok_def)
qed

text \<open>
  The theorem at a call for class \<open>C\<close>, which no factory can build: both factories
  were invoked with the caller's names.
\<close>

theorem argument_forwarding_witness:
  "CreateObject
     (instrumented (stub_CreateObject [((''mock'', ''A'', ''IA''), ''M''), ((''real'', ''A'', ''IA''), ''R''),
                         ((''real'', ''B'', ''IB''), ''S'')]))
     \<lparr>m_moduleFactories = [''mock'', ''real'']\<rparr> ''C'' ''IC'' ([], 0)
   = (None, \<lparr>m_moduleFactories = [''mock'', ''real'']\<rparr>,
      ([\<lparr>inv_factory = ''mock'', inv_className = ''C'', inv_interfaceName = ''IC'', inv_result = None\<rparr>,
        \<lparr>inv_factory = ''real'', inv_className = ''C'', inv_interfaceName = ''IC'', inv_result = None\<rparr>],
       2))
   \<and> map inv_className
        [\<lparr>inv_factory = ''mock'', inv_className = ''C'', inv_interfaceName = ''IC'', inv_result = None :: string option\<rparr>,
         \<lparr>inv_factory = ''real'', inv_className = ''C'', inv_interfaceName = ''IC'', inv_result = None\<rparr>]
       = [''C'', ''C'']
   \<and> map inv_interfaceName
        [\<lparr>inv_factory = ''mock'', inv_className = ''C'', inv_interfaceName = ''IC'', inv_result = None :: string option\<rparr>,
         \<lparr>inv_factory = ''real'', inv_className = ''C'', inv_interfaceName = ''IC'', inv_result = None\<rparr>]
       = [''IC'', ''IC'']"
proof -
  have run: "CreateObject
     (instrumented (stub_CreateObject [((''mock'', ''A'', ''IA''), ''M''), ((''real'', ''A'', ''IA''), ''R''),
                         ((''real'', ''B'', ''IB''), ''S'')]))
     \<lparr>m_moduleFactories = [''mock'', ''real'']\<rparr> ''C'' ''IC'' ([], 0)
   = (None, \<lparr>m_moduleFactories = [''mock'', ''real'']\<rparr>,
      ([\<lparr>inv_factory = ''mock'', inv_className = ''C'', inv_interfaceName = ''IC'', inv_result = None\<rparr>,
        \<lparr>inv_factory = ''real'', inv_className = ''C'', inv_interfaceName = ''IC'', inv_result = None\<rparr>],
       2))"
    by (simp add: CreateObject_def instrumented_def stub_CreateObject_def)
  from argument_forwarding [OF run] show ?thesis
    using run by simp
qed

text \<open>
  Claim C8 (frame property). The object after a call is the object before it, in the
  factory list and in every other part; two objects with the same factory list give the
  same pointer and the same effect, whatever else they hold, so only the list is read;
  and a call on the object an earlier call left is the same as that call on the object
  before the earlier call.
\<close>

theorem frame_property:
  "fst (snd (CreateObject fco this className interfaceName w)) = this
   \<and> m_moduleFactories (fst (snd (CreateObject fco this className interfaceName w))) = m_moduleFactories this
   \<and> (m_moduleFactories this = m_moduleFactories that \<longrightarrow>
        fst (CreateObject fco this className interfaceName w) = fst (CreateObject fco that className interfaceName w)
        \<and> snd (snd (CreateObject fco this className interfaceName w)) = snd (snd (CreateObject fco that className interfaceName w)))
   \<and> CreateObject fco (fst (snd (CreateObject fco this className interfaceName w))) laterClassName laterInterfaceName v
       = CreateObject fco this laterClassName laterInterfaceName v"
  by (simp add: CreateObject_def split: prod.splits)

text \<open>
  The theorem at two objects with the same factory list, one of them with a further
  part.
\<close>

theorem frame_property_witness:
  "fst (CreateObject (stub_CreateObject [((''mock'', ''A'', ''IA''), ''M'')])
          \<lparr>m_moduleFactories = [''mock'', ''real'']\<rparr> ''A'' ''IA'' 0)
   = fst (CreateObject (stub_CreateObject [((''mock'', ''A'', ''IA''), ''M'')])
          \<lparr>m_moduleFactories = [''mock'', ''real''], \<dots> = True\<rparr> ''A'' ''IA'' 0)
   \<and> fst (snd (CreateObject (stub_CreateObject [((''mock'', ''A'', ''IA''), ''M'')])
          \<lparr>m_moduleFactories = [''mock'', ''real''], \<dots> = True\<rparr> ''A'' ''IA'' 0))
     = \<lparr>m_moduleFactories = [''mock'', ''real''], \<dots> = True\<rparr>"
  using frame_property [where this = "\<lparr>m_moduleFactories = [''mock'', ''real'']\<rparr>"
      and that = "\<lparr>m_moduleFactories = [''mock'', ''real''], \<dots> = True\<rparr>"
      and fco = "stub_CreateObject [((''mock'', ''A'', ''IA''), ''M'')]"
      and className = "''A''" and interfaceName = "''IA''" and w = 0
      and laterClassName = "''B''" and laterInterfaceName = "''IB''" and v = 1]
    frame_property [where this = "\<lparr>m_moduleFactories = [''mock'', ''real''], \<dots> = True\<rparr>"
      and that = "\<lparr>m_moduleFactories = [''mock'', ''real'']\<rparr>"
      and fco = "stub_CreateObject [((''mock'', ''A'', ''IA''), ''M'')]"
      and className = "''A''" and interfaceName = "''IA''" and w = 0
      and laterClassName = "''B''" and laterInterfaceName = "''IB''" and v = 1]
  by simp

section \<open>The order of the list across platforms\<close>

lemma names_of_ctor:
  "m_moduleFactories (CSpxResourceManager_ctor Get p) =
     map Get (m_moduleFactories (CSpxResourceManager_ctor id p))"
  by (cases p) (simp_all add: push_back_def)

lemma logical_names:
  "map spec_logical_name (m_moduleFactories (CSpxResourceManager_ctor id Linux)) = spec_module_order"
  "map spec_logical_name (m_moduleFactories (CSpxResourceManager_ctor id Mach)) = spec_module_order"
  "map spec_logical_name (m_moduleFactories (CSpxResourceManager_ctor id Other_platform)) =
     spec_module_order @ [''carbon-unidec'']"
  by (simp_all add: push_back_def spec_logical_name_def strip_suffix_def strip_prefix_def
      spec_module_order_def)

text \<open>
  Claim C5 as stated (the last entry is the core module \<^verbatim>\<open>carbon\<close> on every
  platform) fails on the remaining branch, where module handles are the module names: the
  last entry there is not \<^verbatim>\<open>carbon\<close>.
\<close>

theorem final_entry_counterexample:
  "\<not> last (m_moduleFactories (CSpxResourceManager_ctor id Other_platform)) = id ''carbon''"
  by (simp add: push_back_def)

text \<open>
  Claim C5, amended. On the Linux and the macOS branch the last entry of the list is the
  handle of \<^verbatim>\<open>carbon\<close>. On the remaining branch the list has five entries, the
  handle of \<^verbatim>\<open>carbon\<close> is the fourth, the last but one, and the last entry is the
  handle of \<^verbatim>\<open>carbon-unidec.dll\<close>.
\<close>

theorem final_entry:
  "last (m_moduleFactories (CSpxResourceManager_ctor Get Linux)) = Get ''carbon''
   \<and> last (m_moduleFactories (CSpxResourceManager_ctor Get Mach)) = Get ''carbon''
   \<and> last (butlast (m_moduleFactories (CSpxResourceManager_ctor Get Other_platform))) = Get ''carbon''
   \<and> length (m_moduleFactories (CSpxResourceManager_ctor Get Other_platform)) = 5
   \<and> m_moduleFactories (CSpxResourceManager_ctor Get Other_platform) ! 3 = Get ''carbon''
   \<and> m_moduleFactories (CSpxResourceManager_ctor Get Other_platform) ! 4 = Get ''carbon-unidec.dll''"
  by (simp add: push_back_def)

text \<open>
  Claim C6 as stated (the three branches build the same logical modules in the same
  order, differing in the name strings only) fails: the list of the remaining branch is
  longer than the list of the Linux branch, and its logical names are not the order the
  specification gives.
\<close>

theorem platform_order_counterexample:
  "length (m_moduleFactories (CSpxResourceManager_ctor id Other_platform)) \<noteq>
     length (m_moduleFactories (CSpxResourceManager_ctor id Linux))
   \<and> map spec_logical_name (m_moduleFactories (CSpxResourceManager_ctor id Other_platform)) \<noteq>
     spec_module_order"
  by (simp add: push_back_def spec_module_order_def)

text \<open>
  Claim C6, amended. On every branch the handles are those of a fixed sequence of names.
  The logical names on the Linux and on the macOS branch are exactly the mock module, the
  pma extension, the kws extension and the core module, in this order; the remaining
  branch has the same four in the same order, followed by one further module,
  \<^verbatim>\<open>carbon-unidec\<close>.
\<close>

theorem platform_order:
  "m_moduleFactories (CSpxResourceManager_ctor Get p) =
     map Get (m_moduleFactories (CSpxResourceManager_ctor id p))
   \<and> map spec_logical_name (m_moduleFactories (CSpxResourceManager_ctor id Linux)) = spec_module_order
   \<and> map spec_logical_name (m_moduleFactories (CSpxResourceManager_ctor id Mach)) = spec_module_order
   \<and> map spec_logical_name (m_moduleFactories (CSpxResourceManager_ctor id Other_platform)) =
       spec_module_order @ [''carbon-unidec'']"
  using names_of_ctor [of Get p] logical_names by blast

end
